theory Spec2Isabelle
  imports Complex_Main "HOL-Library.AList" "HOL-Library.Multiset"
begin

section \<open>Values shared by the two modules\<close>

text \<open>
  The exceptions the two modules raise, by their Python class. \<open>KeyError\<close> is a read of
  a column the table does not have, \<open>AttributeError\<close> a read of a parameter the
  \<open>AttrDict\<close> does not hold.
\<close>

datatype error = ValueError | KeyError | AssertionError | NotImplementedError | AttributeError

text \<open>
  A float64 value. Finite values are idealised as reals (no rounding, no overflow, no
  signed zero); the three special values are kept, since numpy divides by zero without
  raising.
\<close>

datatype npfloat = Fin real | NaN | PosInf | NegInf

text \<open>A pandas \<open>Timestamp\<close> or \<open>Timedelta\<close> scalar: nanoseconds, or \<open>NaT\<close>.\<close>

datatype nptime = At int | NaT

fun np_sub :: "npfloat \<Rightarrow> npfloat \<Rightarrow> npfloat" where
  "np_sub (Fin a) (Fin b) = Fin (a - b)"
| "np_sub NaN _ = NaN"
| "np_sub _ NaN = NaN"
| "np_sub PosInf PosInf = NaN"
| "np_sub NegInf NegInf = NaN"
| "np_sub PosInf _ = PosInf"
| "np_sub NegInf _ = NegInf"
| "np_sub (Fin a) PosInf = NegInf"
| "np_sub (Fin a) NegInf = PosInf"

fun np_div :: "npfloat \<Rightarrow> npfloat \<Rightarrow> npfloat" where
  "np_div (Fin a) (Fin b) =
     (if b \<noteq> 0 then Fin (a / b)
      else if a = 0 then NaN
      else if a > 0 then PosInf else NegInf)"
| "np_div NaN _ = NaN"
| "np_div _ NaN = NaN"
| "np_div (Fin a) _ = Fin 0"
| "np_div PosInf (Fin b) = (if b \<ge> 0 then PosInf else NegInf)"
| "np_div NegInf (Fin b) = (if b \<ge> 0 then NegInf else PosInf)"
| "np_div _ _ = NaN"

fun np_sin :: "npfloat \<Rightarrow> npfloat" where
  "np_sin (Fin a) = Fin (sin a)"
| "np_sin _ = NaN"

fun np_cos :: "npfloat \<Rightarrow> npfloat" where
  "np_cos (Fin a) = Fin (cos a)"
| "np_cos _ = NaN"

text \<open>
  Python's \<open>x[lo:hi]\<close> on a sequence, with either bound optional: a negative bound
  counts from the end, and both are clamped to the sequence.
\<close>

definition py_bound :: "nat \<Rightarrow> int \<Rightarrow> nat" where
  "py_bound n i = (if i < 0 then nat (max (int n + i) 0) else min (nat i) n)"

definition py_slice :: "'a list \<Rightarrow> int option \<Rightarrow> int option \<Rightarrow> 'a list" where
  "py_slice xs lo hi =
     (let n = length xs;
          a = (case lo of None \<Rightarrow> 0 | Some i \<Rightarrow> py_bound n i);
          b = (case hi of None \<Rightarrow> n | Some i \<Rightarrow> py_bound n i)
      in take (b - a) (drop a xs))"


section \<open>The table\<close>

text \<open>
  A \<open>DataFrame\<close> with the columns the code reads and writes: the row labels
  (\<open>index\<close>) and their name, and the columns \<open>'ds'\<close>, \<open>'y'\<close>, \<open>'t'\<close> and
  \<open>'y_scaled'\<close>, each present or not. The types of the columns \<open>'ds'\<close> and \<open>'y'\<close>
  are parameters: raw columns for \<open>check_dataframe\<close>, lists of nanosecond timestamps
  and of finite values for the functions that work on a checked table. \<open>len(df)\<close> is
  the number of row labels.
\<close>

record ('d, 'v) dataframe =
  index_name :: "string option"
  index :: "int list"
  ds :: "'d option"
  y :: "'v option"
  t :: "npfloat list option"
  y_scaled :: "npfloat list option"

definition len :: "('d, 'v) dataframe \<Rightarrow> nat" where
  "len df = length (index df)"

text \<open>Every column that is present has one cell for each row label.\<close>

definition col_ok :: "nat \<Rightarrow> 'a list option \<Rightarrow> bool" where
  "col_ok n c = (case c of None \<Rightarrow> True | Some xs \<Rightarrow> length xs = n)"

definition wf_df :: "('a list, 'b list) dataframe \<Rightarrow> bool" where
  "wf_df df = (col_ok (len df) (ds df) \<and> col_ok (len df) (y df)
     \<and> col_ok (len df) (t df) \<and> col_ok (len df) (y_scaled df))"

section \<open>time_dataset.py\<close>

subsection \<open>fourier_series and seasonal_features_from_dates\<close>

record period_cfg =
  period :: real
  resolution :: int

record season_config =
  periods :: "(string \<times> period_cfg) list"
  type :: string

text \<open>
  \<open>t\<close> of \<open>fourier_series\<close>: days since 1970-01-01 of a timestamp in nanoseconds
  (\<open>total_seconds()\<close>, then divided by \<open>3600 * 24.\<close>).
\<close>

definition days_since_epoch :: "int \<Rightarrow> real" where
  "days_since_epoch d = (real_of_int d / 1000000000) / (3600 * 24)"

text \<open>One row of the feature matrix: for \<open>i\<close> in \<open>range(series_order)\<close>, sin then cos.\<close>

definition fourier_row :: "real \<Rightarrow> int \<Rightarrow> int \<Rightarrow> npfloat list" where
  "fourier_row p series_order d =
     concat (map (\<lambda>i. [np_sin (np_div (Fin (2 * (real i + 1) * pi * days_since_epoch d)) (Fin p)),
                        np_cos (np_div (Fin (2 * (real i + 1) * pi * days_since_epoch d)) (Fin p))])
                 [0..<nat series_order])"

text \<open>\<open>np.column_stack\<close> of an empty list of columns raises \<open>ValueError\<close>.\<close>

definition fourier_series :: "int list \<Rightarrow> real \<Rightarrow> int \<Rightarrow> error + npfloat list list" where
  "fourier_series dates p series_order =
     (if series_order \<le> 0 then Inl ValueError
      else Inr (map (fourier_row p series_order) dates))"

fun seasonal_loop :: "int list \<Rightarrow> string \<Rightarrow> (string \<times> period_cfg) list
    \<Rightarrow> (string \<times> npfloat list list) list \<Rightarrow> error + (string \<times> npfloat list list) list" where
  "seasonal_loop dates ty [] seasonalities = Inr seasonalities"
| "seasonal_loop dates ty ((name, p) # rest) seasonalities =
     (if resolution p > 0 then
        (if ty = ''fourier'' then
           (case fourier_series dates (period p) (resolution p) of
              Inl e \<Rightarrow> Inl e
            | Inr features \<Rightarrow>
                seasonal_loop dates ty rest (AList.update name features seasonalities))
         else Inl NotImplementedError)
      else seasonal_loop dates ty rest seasonalities)"

text \<open>
  The loop over \<open>season_config.periods.items()\<close>, in the order of the dictionary; the
  result is the ordered dictionary of the features by name. The assertion that the dates
  have one dimension holds of every column.
\<close>

definition seasonal_features_from_dates :: "int list \<Rightarrow> season_config
    \<Rightarrow> error + (string \<times> npfloat list list) list" where
  "seasonal_features_from_dates dates cfg = seasonal_loop dates (type cfg) (periods cfg) []"

subsection \<open>tabularize_univariate_datetime\<close>

text \<open>
  The arrays are nested lists, outermost dimension first; \<open>np.array\<close> of a list of
  equally long slices is that list (with \<open>n_lags \<ge> 0\<close> and \<open>n_forecasts \<ge> 0\<close> the
  slices of one array are equally long). A cell of the targets is a value, or left as it
  was allocated by \<open>np.empty_like\<close>. The statements follow the source in its order:
  the read of \<open>'y_scaled'\<close>, the read of \<open>'t'\<close>, the assertion, the lags, the
  seasonalities, the targets.
\<close>

datatype 'a slot = Filled 'a | Uninitialized

record inputs =
  time :: "npfloat list list"
  lags :: "npfloat list list option"
  seasonalities :: "(string \<times> npfloat list list list) list option"

definition stride_time_features_for_forecasts :: "int \<Rightarrow> int \<Rightarrow> int \<Rightarrow> 'a list \<Rightarrow> 'a list list" where
  "stride_time_features_for_forecasts n_lags n_forecasts n_samples x =
     map (\<lambda>i. py_slice x (Some (n_lags + int i)) (Some (n_lags + int i + n_forecasts)))
         [0..<nat n_samples]"

definition get_column :: "'a option \<Rightarrow> error + 'a" where
  "get_column c = (case c of None \<Rightarrow> Inl KeyError | Some xs \<Rightarrow> Inr xs)"

definition tabularize_seasonalities :: "(int list, 'v) dataframe \<Rightarrow> season_config option
    \<Rightarrow> int \<Rightarrow> int \<Rightarrow> int \<Rightarrow> error + (string \<times> npfloat list list list) list option" where
  "tabularize_seasonalities df cfg n_lags n_forecasts n_samples =
     (case cfg of
        None \<Rightarrow> Inr None
      | Some c \<Rightarrow>
          (case get_column (ds df) of
             Inl e \<Rightarrow> Inl e
           | Inr dates \<Rightarrow>
               (case seasonal_features_from_dates dates c of
                  Inl e \<Rightarrow> Inl e
                | Inr feats \<Rightarrow>
                    Inr (Some (map (\<lambda>(name, features).
                      (name,
                       if n_lags = 0 then map (\<lambda>row. [row]) features
                       else stride_time_features_for_forecasts n_lags n_forecasts n_samples features))
                      feats)))))"

definition tabularize_univariate_datetime :: "(int list, 'v) dataframe \<Rightarrow> season_config option
    \<Rightarrow> int \<Rightarrow> int \<Rightarrow> bool \<Rightarrow> error + (inputs \<times> npfloat slot list list)" where
  "tabularize_univariate_datetime df cfg n_lags n_forecasts predict_mode =
     (let n_samples = int (len df) - n_lags + 1 - n_forecasts in
      case get_column (y_scaled df) of
        Inl e \<Rightarrow> Inl e
      | Inr series \<Rightarrow>
     (case get_column (t df) of
        Inl e \<Rightarrow> Inl e
      | Inr tt \<Rightarrow>
          if n_lags = 0 \<and> n_forecasts \<noteq> 1 then Inl AssertionError
          else
            let time_arr = (if n_lags = 0 then map (\<lambda>x. [x]) tt
                            else stride_time_features_for_forecasts n_lags n_forecasts n_samples tt);
                lags_arr = (if n_lags > 0
                            then Some (map (\<lambda>i. py_slice series (Some (int i)) (Some (int i + n_lags)))
                                           [0..<nat n_samples])
                            else None)
            in (case tabularize_seasonalities df cfg n_lags n_forecasts n_samples of
                  Inl e \<Rightarrow> Inl e
                | Inr seas \<Rightarrow>
                    Inr (\<lparr>time = time_arr, lags = lags_arr, seasonalities = seas\<rparr>,
                         if predict_mode then map (map (\<lambda>_. Uninitialized)) time_arr
                         else map (\<lambda>i. map Filled
                                (py_slice series (Some (int i + n_lags)) (Some (int i + n_lags + n_forecasts))))
                              [0..<nat n_samples]))))"

section \<open>df_utils.py\<close>

subsection \<open>init_data_params and normalize\<close>

text \<open>
  The \<open>AttrDict\<close> of scaling values. \<open>t_start\<close> and \<open>t_scale\<close> are always set;
  \<open>y_shift\<close> and \<open>y_scale\<close> only when the table has a column \<open>'y'\<close>.
\<close>

record data_params =
  t_start :: nptime
  t_scale :: nptime
  y_shift :: "npfloat option"
  y_scale :: "npfloat option"

text \<open>Minimum and maximum of a datetime column: \<open>NaT\<close> when it has no rows.\<close>

definition ts_min :: "int list \<Rightarrow> nptime" where
  "ts_min xs = (case xs of [] \<Rightarrow> NaT | x # r \<Rightarrow> At (fold min r x))"

definition ts_max :: "int list \<Rightarrow> nptime" where
  "ts_max xs = (case xs of [] \<Rightarrow> NaT | x # r \<Rightarrow> At (fold max r x))"

fun time_sub :: "nptime \<Rightarrow> nptime \<Rightarrow> nptime" where
  "time_sub (At a) (At b) = At (a - b)"
| "time_sub _ _ = NaT"

text \<open>A \<open>Timedelta\<close> divided by a \<open>Timedelta\<close> is a float.\<close>

fun time_div :: "nptime \<Rightarrow> nptime \<Rightarrow> npfloat" where
  "time_div (At a) (At b) = np_div (Fin (real_of_int a)) (Fin (real_of_int b))"
| "time_div _ _ = NaN"

text \<open>
  \<open>np.mean\<close> and \<open>np.std\<close> (the latter with numpy's default \<open>ddof=0\<close>: the square
  root of the mean of the squared deviations); both are \<open>nan\<close> on an empty array.
\<close>

definition np_mean :: "real list \<Rightarrow> npfloat" where
  "np_mean xs = (if xs = [] then NaN else Fin (sum_list xs / real (length xs)))"

definition np_std :: "real list \<Rightarrow> npfloat" where
  "np_std xs =
     (if xs = [] then NaN
      else Fin (sqrt (sum_list (map (\<lambda>v. \<bar>v - sum_list xs / real (length xs)\<bar>\<^sup>2) xs)
                      / real (length xs))))"

definition data_params_from :: "int list \<Rightarrow> real list option \<Rightarrow> bool \<Rightarrow> data_params" where
  "data_params_from dates values normalize_y =
     (let start = ts_min dates;
          scale = time_sub (ts_max dates) start
      in case values of
           None \<Rightarrow> \<lparr>t_start = start, t_scale = scale, y_shift = None, y_scale = None\<rparr>
         | Some ys \<Rightarrow>
             \<lparr>t_start = start, t_scale = scale,
              y_shift = Some (if normalize_y then np_mean ys else Fin 0),
              y_scale = Some (if normalize_y then np_std ys else Fin 1)\<rparr>)"

definition init_data_params :: "(int list, real list) dataframe \<Rightarrow> bool \<Rightarrow> int option
    \<Rightarrow> error + data_params" where
  "init_data_params df normalize_y split_idx =
     (case get_column (ds df) of
        Inl e \<Rightarrow> Inl e
      | Inr dates \<Rightarrow>
          (case split_idx of
             None \<Rightarrow> Inr (data_params_from dates (y df) normalize_y)
           | Some k \<Rightarrow>
               Inr (data_params_from (py_slice dates None (Some k))
                      (map_option (\<lambda>ys. py_slice ys None (Some k)) (y df)) normalize_y)))"

text \<open>
  \<open>normalize\<close> writes the columns \<open>'t'\<close> and \<open>'y_scaled'\<close> into the table it is given
  and returns that table; the model returns the table after the writes.
\<close>

definition normalize :: "(int list, real list) dataframe \<Rightarrow> data_params
    \<Rightarrow> error + (int list, real list) dataframe" where
  "normalize df params =
     (case get_column (ds df) of
        Inl e \<Rightarrow> Inl e
      | Inr dates \<Rightarrow>
          (let df1 = df\<lparr>t := Some (map (\<lambda>d. time_div (time_sub (At d) (t_start params))
                                                    (t_scale params)) dates)\<rparr>
           in case y df of
                None \<Rightarrow> Inr df1
              | Some ys \<Rightarrow>
                  (case (y_shift params, y_scale params) of
                     (Some shift, Some scale) \<Rightarrow>
                       Inr (df1\<lparr>y_scaled := Some (map (\<lambda>v. np_div (np_sub (Fin v) shift) scale) ys)\<rparr>)
                   | _ \<Rightarrow> Inl AttributeError)))"

subsection \<open>split_df\<close>


text \<open>\<open>reset_index(drop=True)\<close>: the row labels become \<open>0, 1, ...\<close>, without a name.\<close>

definition reset_index :: "('d, 'v) dataframe \<Rightarrow> ('d, 'v) dataframe" where
  "reset_index df = df\<lparr>index_name := None, index := map int [0..<len df]\<rparr>"


subsection \<open>check_dataframe\<close>

text \<open>
  A raw table, before the function has coerced it. A cell of \<open>'y'\<close> is \<open>None\<close>, a
  string or a number. The column \<open>'ds'\<close> is one of the three pandas dtypes the function
  tells apart: \<open>int64\<close>, \<open>object\<close> (strings and \<open>None\<close>) and datetime, the last with
  its timezone, if any.
\<close>

datatype ycell = YNone | YStr string | YNum npfloat

datatype dobj = DNone | DStr string

datatype ds_column =
    Int64Col "int list"
  | ObjectCol "dobj list"
  | DatetimeCol "string option" "nptime list"

type_synonym raw_dataframe = "(ds_column, ycell list) dataframe"

fun ds_len :: "ds_column \<Rightarrow> nat" where
  "ds_len (Int64Col xs) = length xs"
| "ds_len (ObjectCol cs) = length cs"
| "ds_len (DatetimeCol tz vs) = length vs"

definition wf_raw :: "raw_dataframe \<Rightarrow> bool" where
  "wf_raw df = ((case ds df of None \<Rightarrow> True | Some c \<Rightarrow> ds_len c = len df)
     \<and> col_ok (len df) (y df) \<and> col_ok (len df) (t df) \<and> col_ok (len df) (y_scaled df))"

text \<open>
  The pandas functions whose results the source does not determine are parameters:
  the parsing of a string as a number (\<open>None\<close> when \<open>pd.to_numeric\<close> raises), the parsing
  of an \<open>object\<close> column as datetimes (\<open>None\<close> when \<open>pd.to_datetime\<close> raises; otherwise
  the timezone and the values), and the positions in sorted order that \<open>sort_values\<close>
  computes from the keys. \<open>sort_values\<close> uses quicksort by default, which is not stable,
  so \<open>pandas_ok\<close> asks of \<open>argsort\<close> only that it is a permutation of the positions
  that puts the keys in order.
\<close>

record pandas =
  to_numeric_str :: "string \<Rightarrow> npfloat option"
  to_datetime_obj :: "dobj list \<Rightarrow> (string option \<times> nptime list) option"
  argsort :: "int list \<Rightarrow> nat list"

definition pandas_ok :: "pandas \<Rightarrow> bool" where
  "pandas_ok pd =
     ((\<forall>cells tz vs. to_datetime_obj pd cells = Some (tz, vs) \<longrightarrow> length vs = length cells)
    \<and> (\<forall>keys. mset (argsort pd keys) = mset [0..<length keys]
            \<and> sorted (map ((!) keys) (argsort pd keys))))"

fun isnull :: "ycell \<Rightarrow> bool" where
  "isnull YNone = True"
| "isnull (YNum NaN) = True"
| "isnull _ = False"

fun isinf :: "npfloat \<Rightarrow> bool" where
  "isinf PosInf = True"
| "isinf NegInf = True"
| "isinf _ = False"

fun to_numeric_cell :: "pandas \<Rightarrow> ycell \<Rightarrow> npfloat option" where
  "to_numeric_cell pd YNone = Some NaN"
| "to_numeric_cell pd (YStr s) = to_numeric_str pd s"
| "to_numeric_cell pd (YNum v) = Some v"

definition to_numeric :: "pandas \<Rightarrow> ycell list \<Rightarrow> npfloat list option" where
  "to_numeric pd cells = those (map (to_numeric_cell pd) cells)"

fun ds_isnull_any :: "ds_column \<Rightarrow> bool" where
  "ds_isnull_any (Int64Col xs) = False"
| "ds_isnull_any (ObjectCol cs) = (DNone \<in> set cs)"
| "ds_isnull_any (DatetimeCol tz vs) = (NaT \<in> set vs)"

text \<open>\<open>str\<close> of an integer, for \<open>astype(str)\<close>.\<close>

fun nat_digits :: "nat \<Rightarrow> string" where
  "nat_digits n =
     (if n < 10 then [''0123456789'' ! n]
      else nat_digits (n div 10) @ [''0123456789'' ! (n mod 10)])"

declare nat_digits.simps [simp del]

definition str :: "int \<Rightarrow> string" where
  "str i = (if i < 0 then CHR ''-'' # nat_digits (nat (- i)) else nat_digits (nat i))"

text \<open>
  \<open>pd.to_datetime\<close> of a column: a datetime column is returned as it is, integers are
  nanoseconds since the epoch, an \<open>object\<close> column is parsed.
\<close>

fun to_datetime :: "pandas \<Rightarrow> ds_column \<Rightarrow> (string option \<times> nptime list) option" where
  "to_datetime pd (Int64Col xs) = Some (None, map At xs)"
| "to_datetime pd (ObjectCol cs) = to_datetime_obj pd cs"
| "to_datetime pd (DatetimeCol tz vs) = Some (tz, vs)"

text \<open>The timestamps of a datetime column without \<open>NaT\<close>; \<open>None\<close> when it has one.\<close>

fun stamp :: "nptime \<Rightarrow> int option" where
  "stamp (At v) = Some v"
| "stamp NaT = None"

definition stamps :: "nptime list \<Rightarrow> int list option" where
  "stamps vs = those (map stamp vs)"

text \<open>The rows at the positions \<open>perm\<close>, in that order.\<close>

definition take_rows :: "nat list \<Rightarrow> 'a list \<Rightarrow> 'a list" where
  "take_rows perm col = map ((!) col) perm"

text \<open>
  \<open>df.sort_values('ds')\<close> on a table whose \<open>'ds'\<close> holds the timestamps \<open>keys\<close>: a new
  table with the rows, and their labels, in the order of \<open>argsort\<close>.
\<close>

definition sort_values :: "pandas \<Rightarrow> int list \<Rightarrow> raw_dataframe \<Rightarrow> raw_dataframe" where
  "sort_values pd keys df =
     (let perm = argsort pd keys
      in df\<lparr>index := take_rows perm (index df),
            ds := Some (DatetimeCol None (map At (take_rows perm keys))),
            y := map_option (take_rows perm) (y df),
            t := map_option (take_rows perm) (t df),
            y_scaled := map_option (take_rows perm) (y_scaled df)\<rparr>)"

text \<open>
  \<open>check_dataframe\<close> assigns to the columns and to the index name of the table it is
  given, so the model returns two things: the caller's table as the call leaves it, and the
  exception raised or the table returned.
\<close>

definition check_dataframe :: "pandas \<Rightarrow> raw_dataframe \<Rightarrow> raw_dataframe \<times> (error + raw_dataframe)" where
  "check_dataframe pd df =
     (if len df = 0 then (df, Inl ValueError)
      else case (ds df, y df) of
        (Some dcol, Some ycol) \<Rightarrow>
          if length (filter (\<lambda>c. \<not> isnull c) ycol) < 2 then (df, Inl ValueError)
          else if list_ex isnull ycol then (df, Inl ValueError)
          else (case to_numeric pd ycol of
              None \<Rightarrow> (df, Inl ValueError)
            | Some nums \<Rightarrow>
                let df1 = df\<lparr>y := Some (map YNum nums)\<rparr> in
                if list_ex isinf nums then (df1, Inl ValueError)
                else if ds_isnull_any dcol then (df1, Inl ValueError)
                else
                  let dcol2 = (case dcol of
                                 Int64Col xs \<Rightarrow> ObjectCol (map (\<lambda>i. DStr (str i)) xs)
                               | _ \<Rightarrow> dcol);
                      df2 = df1\<lparr>ds := Some dcol2\<rparr>
                  in (case to_datetime pd dcol2 of
                        None \<Rightarrow> (df2, Inl ValueError)
                      | Some (tz, vs) \<Rightarrow>
                          let df3 = df2\<lparr>ds := Some (DatetimeCol tz vs)\<rparr> in
                          if tz \<noteq> None then (df3, Inl ValueError)
                          else (case stamps vs of
                                  None \<Rightarrow> (df3, Inl ValueError)
                                | Some keys \<Rightarrow>
                                    let df4 = (if index_name df3 = Some ''ds''
                                               then df3\<lparr>index_name := None\<rparr> else df3)
                                    in (df4, Inr (reset_index (sort_values pd keys df4))))))
      | _ \<Rightarrow> (df, Inl ValueError))"

section \<open>Example tables\<close>

definition weekly_cfg :: season_config where
  "weekly_cfg = \<lparr>periods = [(''weekly'', \<lparr>period = 7, resolution = 3\<rparr>)], type = ''fourier''\<rparr>"

definition day_ns :: int where
  "day_ns = 86400000000000"

definition table10 :: "(int list, real list) dataframe" where
  "table10 = \<lparr>index_name = None, index = [0, 1, 2, 3, 4, 5, 6, 7, 8, 9],
     ds = Some (map (\<lambda>k. k * day_ns) [0, 1, 2, 3, 4, 5, 6, 7, 8, 9]),
     y = Some [10, 11, 12, 13, 14, 15, 16, 17, 18, 19],
     t = Some (map (\<lambda>k. Fin (k / 9)) [0, 1, 2, 3, 4, 5, 6, 7, 8, 9]),
     y_scaled = Some (map Fin [0, 1, 2, 3, 4, 5, 6, 7, 8, 9])\<rparr>"

definition table6 :: "(int list, real list) dataframe" where
  "table6 = \<lparr>index_name = None, index = [0, 1, 2, 3, 4, 5],
     ds = Some (map (\<lambda>k. k * day_ns) [0, 1, 2, 3, 4, 5]),
     y = Some [10, 11, 12, 13, 14, 15],
     t = Some (map (\<lambda>k. Fin (k / 5)) [0, 1, 2, 3, 4, 5]),
     y_scaled = Some (map Fin [0, 1, 2, 3, 4, 5])\<rparr>"

definition table3_no_y :: "(int list, real list) dataframe" where
  "table3_no_y = \<lparr>index_name = None, index = [0, 1, 2],
     ds = Some (map (\<lambda>k. k * day_ns) [0, 1, 2]),
     y = None,
     t = Some (map (\<lambda>k. Fin (k / 2)) [0, 1, 2]),
     y_scaled = None\<rparr>"


definition table2 :: "(int list, real list) dataframe" where
  "table2 = \<lparr>index_name = None, index = [0, 1],
     ds = Some [0, day_ns], y = Some [1, 3], t = None, y_scaled = None\<rparr>"

definition table2_params :: data_params where
  "table2_params = \<lparr>t_start = At 0, t_scale = At day_ns, y_shift = Some (Fin 2), y_scale = Some (Fin 1)\<rparr>"

text \<open>
  Two instances of the pandas parameters, both sorting by insertion. The first parses no
  string at all; the second parses the two dates of \<open>raw_int_dates\<close>.
\<close>

definition pandas_plain :: pandas where
  "pandas_plain = \<lparr>to_numeric_str = (\<lambda>s. None), to_datetime_obj = (\<lambda>cells. None),
     argsort = (\<lambda>keys. sort_key ((!) keys) [0..<length keys])\<rparr>"


definition raw_same_time :: raw_dataframe where
  "raw_same_time = \<lparr>index_name = None, index = [0, 1],
     ds = Some (DatetimeCol None [At 0, At 0]),
     y = Some [YNum (Fin 1), YNum (Fin 2)], t = None, y_scaled = None\<rparr>"

definition raw_unsorted :: raw_dataframe where
  "raw_unsorted = \<lparr>index_name = Some ''ds'', index = [5, 7, 9],
     ds = Some (DatetimeCol None [At (2 * day_ns), At 0, At day_ns]),
     y = Some [YNum (Fin 3), YNum (Fin 1), YNum (Fin 2)], t = None, y_scaled = None\<rparr>"


definition raw_sorted :: raw_dataframe where
  "raw_sorted = \<lparr>index_name = None, index = [0, 1, 2],
     ds = Some (DatetimeCol None [At 0, At day_ns, At (2 * day_ns)]),
     y = Some [YNum (Fin 1), YNum (Fin 2), YNum (Fin 3)], t = None, y_scaled = None\<rparr>"

section \<open>Slices and strided windows\<close>

lemma py_bound_nonneg: "0 \<le> i \<Longrightarrow> i \<le> int n \<Longrightarrow> py_bound n i = nat i"
  by (simp add: py_bound_def)

lemma take_drop_nth_upt: "b \<le> length xs \<Longrightarrow> take (b - a) (drop a xs) = map ((!) xs) [a..<b]"
proof (rule nth_equalityI)
  assume "b \<le> length xs"
  then show "length (take (b - a) (drop a xs)) = length (map ((!) xs) [a..<b])" by simp
next
  fix i assume "b \<le> length xs" and "i < length (take (b - a) (drop a xs))"
  then show "take (b - a) (drop a xs) ! i = map ((!) xs) [a..<b] ! i" by simp
qed

lemma py_slice_in_range:
  assumes "0 \<le> a" "a \<le> b" "b \<le> int (length xs)"
  shows "py_slice xs (Some a) (Some b) = map ((!) xs) [nat a..<nat b]"
proof -
  have "nat b \<le> length xs" using assms by linarith
  then show ?thesis using assms
    by (simp add: py_slice_def py_bound_nonneg take_drop_nth_upt)
qed

lemma py_slice_window:
  assumes "0 \<le> a" "0 \<le> w" "a + w \<le> int (length xs)"
  shows "py_slice xs (Some a) (Some (a + w)) = map ((!) xs) [nat a..<nat a + nat w]"
  using py_slice_in_range[of a "a + w" xs] assms by (simp add: nat_add_distrib)

lemma length_stride [simp]:
  "length (stride_time_features_for_forecasts n_lags n_forecasts n_samples x) = nat n_samples"
  by (simp add: stride_time_features_for_forecasts_def)

lemma stride_nth:
  assumes "0 \<le> n_lags" "0 \<le> n_forecasts"
    and "n_samples \<le> int (length x) - n_lags + 1 - n_forecasts" and "i < nat n_samples"
  shows "stride_time_features_for_forecasts n_lags n_forecasts n_samples x ! i
         = map ((!) x) [nat n_lags + i..<nat n_lags + i + nat n_forecasts]"
proof -
  have "n_lags + int i + n_forecasts \<le> int (length x)" using assms by linarith
  then have "py_slice x (Some (n_lags + int i)) (Some (n_lags + int i + n_forecasts))
      = map ((!) x) [nat (n_lags + int i)..<nat (n_lags + int i) + nat n_forecasts]"
    using assms by (intro py_slice_window) auto
  moreover have "nat (n_lags + int i) = nat n_lags + i" using assms by linarith
  ultimately show ?thesis using assms
    by (simp add: stride_time_features_for_forecasts_def)
qed

lemma update_set_cases:
  "e \<in> set (AList.update k v al) \<Longrightarrow> e = (k, v) \<or> e \<in> set al"
  by (induction al) (auto split: if_splits)

lemma seasonal_loop_fourier:
  assumes "\<forall>e\<in>set acc. length (snd e) = length dates"
  shows "\<exists>S. seasonal_loop dates ''fourier'' ps acc = Inr S
           \<and> (\<forall>e\<in>set S. length (snd e) = length dates)"
  using assms
proof (induction ps arbitrary: acc)
  case Nil
  then show ?case by simp
next
  case (Cons a ps)
  obtain name p where a: "a = (name, p)" by (cases a)
  show ?case
  proof (cases "resolution p > 0")
    case True
    let ?f = "map (fourier_row (period p) (resolution p)) dates"
    have "\<forall>e\<in>set (AList.update name ?f acc). length (snd e) = length dates"
      using Cons.prems by (auto dest!: update_set_cases)
    from Cons.IH[OF this] show ?thesis using True a
      by (simp add: fourier_series_def)
  next
    case False
    then show ?thesis using Cons a by simp
  qed
qed

lemma seasonal_features_fourier:
  assumes "type c = ''fourier''"
  shows "\<exists>S. seasonal_features_from_dates dates c = Inr S
           \<and> (\<forall>e\<in>set S. length (snd e) = length dates)"
  using seasonal_loop_fourier[of "[]" dates "periods c"] assms
  by (simp add: seasonal_features_from_dates_def)

section \<open>Fourier features\<close>








section \<open>The Tabularizer\<close>

lemma tabularize_result:
  assumes "t df = Some tt" "y_scaled df = Some series"
    and "n_lags = 0 \<longrightarrow> n_forecasts = 1"
    and "tabularize_seasonalities df cfg n_lags n_forecasts (int (len df) - n_lags + 1 - n_forecasts) = Inr seas"
  shows "tabularize_univariate_datetime df cfg n_lags n_forecasts predict_mode =
     Inr (\<lparr>time = (if n_lags = 0 then map (\<lambda>x. [x]) tt
                    else stride_time_features_for_forecasts n_lags n_forecasts
                           (int (len df) - n_lags + 1 - n_forecasts) tt),
            lags = (if n_lags > 0
                    then Some (map (\<lambda>i. py_slice series (Some (int i)) (Some (int i + n_lags)))
                                 [0..<nat (int (len df) - n_lags + 1 - n_forecasts)])
                    else None),
            seasonalities = seas\<rparr>,
          if predict_mode
          then map (map (\<lambda>_. Uninitialized))
                 (if n_lags = 0 then map (\<lambda>x. [x]) tt
                  else stride_time_features_for_forecasts n_lags n_forecasts
                         (int (len df) - n_lags + 1 - n_forecasts) tt)
          else map (\<lambda>i. map Filled (py_slice series (Some (int i + n_lags))
                                       (Some (int i + n_lags + n_forecasts))))
                 [0..<nat (int (len df) - n_lags + 1 - n_forecasts)])"
  using assms by (simp add: tabularize_univariate_datetime_def get_column_def Let_def)

lemma tabularize_seasonalities_fourier:
  assumes "case cfg of None \<Rightarrow> True | Some c \<Rightarrow> type c = ''fourier'' \<and> ds df \<noteq> None"
  shows "\<exists>seas. tabularize_seasonalities df cfg n_lags n_forecasts n_samples = Inr seas
     \<and> (case cfg of None \<Rightarrow> seas = None
        | Some c \<Rightarrow> \<exists>dates feats. ds df = Some dates
             \<and> seasonal_features_from_dates dates c = Inr feats
             \<and> (\<forall>e\<in>set feats. length (snd e) = length dates)
             \<and> seas = Some (map (\<lambda>(name, features).
                      (name,
                       if n_lags = 0 then map (\<lambda>row. [row]) features
                       else stride_time_features_for_forecasts n_lags n_forecasts n_samples features))
                      feats))"
proof (cases cfg)
  case None
  then show ?thesis by (simp add: tabularize_seasonalities_def)
next
  case (Some c)
  with assms obtain dates where d: "ds df = Some dates" and ty: "type c = ''fourier''" by auto
  from seasonal_features_fourier[OF ty, of dates] obtain feats where
    "seasonal_features_from_dates dates c = Inr feats"
    "\<forall>e\<in>set feats. length (snd e) = length dates" by blast
  then show ?thesis using Some d
    by (simp add: tabularize_seasonalities_def get_column_def)
qed

text \<open>
  C1. On a table that carries \<open>t\<close> and \<open>y_scaled\<close>, with \<open>n_lags > 0\<close>,
  \<open>n_forecasts \<ge> 1\<close> and \<open>n_samples = len(df) - n_lags + 1 - n_forecasts \<ge> 1\<close>, the
  call returns \<open>n_samples\<close> samples: the time, lag, target and seasonality arrays all
  have \<open>n_samples\<close> rows; sample \<open>i\<close> has the lags \<open>series[i .. i + n_lags)\<close>, the
  targets \<open>series[i + n_lags .. i + n_lags + n_forecasts)\<close>, and the time and every
  seasonality slice are the source rows \<open>[n_lags + i .. n_lags + i + n_forecasts)\<close>.
  The season configuration is absent, or of type \<open>'fourier'\<close> on a table with \<open>ds\<close>.
\<close>

theorem tabularize_windows:
  fixes df :: "(int list, 'v list) dataframe"
  assumes wf: "wf_df df" and tcol: "t df = Some tt" and ycol: "y_scaled df = Some series"
    and cfg: "case cfg of None \<Rightarrow> True | Some c \<Rightarrow> type c = ''fourier'' \<and> ds df \<noteq> None"
    and nl: "0 < n_lags" and nf: "1 \<le> n_forecasts"
    and ns: "n_samples = int (len df) - n_lags + 1 - n_forecasts" and ns1: "1 \<le> n_samples"
  shows "\<exists>inp targets.
      tabularize_univariate_datetime df cfg n_lags n_forecasts predict_mode = Inr (inp, targets)
    \<and> length (time inp) = nat n_samples
    \<and> length targets = nat n_samples
    \<and> (\<exists>lg. lags inp = Some lg \<and> length lg = nat n_samples
          \<and> (\<forall>i<nat n_samples. lg ! i = map ((!) series) [i..<i + nat n_lags]))
    \<and> (\<forall>i<nat n_samples.
          time inp ! i = map ((!) tt) [nat n_lags + i..<nat n_lags + i + nat n_forecasts])
    \<and> (\<not> predict_mode \<longrightarrow> (\<forall>i<nat n_samples.
          targets ! i = map (\<lambda>k. Filled (series ! k))
                          [i + nat n_lags..<i + nat n_lags + nat n_forecasts]))
    \<and> (case cfg of None \<Rightarrow> seasonalities inp = None
        | Some c \<Rightarrow> \<exists>dates feats seas. ds df = Some dates
            \<and> seasonal_features_from_dates dates c = Inr feats
            \<and> seasonalities inp = Some seas \<and> map fst seas = map fst feats
            \<and> (\<forall>j<length feats. length (snd (seas ! j)) = nat n_samples
                \<and> (\<forall>i<nat n_samples. snd (seas ! j) ! i
                     = map ((!) (snd (feats ! j)))
                         [nat n_lags + i..<nat n_lags + i + nat n_forecasts])))"
proof -
  have lt: "length tt = len df" and ly: "length series = len df"
    using wf tcol ycol by (simp_all add: wf_df_def col_ok_def)
  obtain seas where seas: "tabularize_seasonalities df cfg n_lags n_forecasts n_samples = Inr seas"
    and seas_shape: "case cfg of None \<Rightarrow> seas = None
        | Some c \<Rightarrow> \<exists>dates feats. ds df = Some dates
             \<and> seasonal_features_from_dates dates c = Inr feats
             \<and> (\<forall>e\<in>set feats. length (snd e) = length dates)
             \<and> seas = Some (map (\<lambda>(name, features).
                      (name,
                       if n_lags = 0 then map (\<lambda>row. [row]) features
                       else stride_time_features_for_forecasts n_lags n_forecasts n_samples features))
                      feats)"
    using tabularize_seasonalities_fourier[OF cfg] by blast
  let ?time = "stride_time_features_for_forecasts n_lags n_forecasts n_samples tt"
  let ?lags = "map (\<lambda>i. py_slice series (Some (int i)) (Some (int i + n_lags))) [0..<nat n_samples]"
  let ?targets = "if predict_mode then map (map (\<lambda>_. Uninitialized)) ?time
      else map (\<lambda>i. map Filled (py_slice series (Some (int i + n_lags))
                                       (Some (int i + n_lags + n_forecasts)))) [0..<nat n_samples]"
  let ?inp = "\<lparr>time = ?time, lags = Some ?lags, seasonalities = seas\<rparr>"
  have res: "tabularize_univariate_datetime df cfg n_lags n_forecasts predict_mode = Inr (?inp, ?targets)"
    using tabularize_result[OF tcol ycol _ seas[unfolded ns], of predict_mode] nl ns by simp
  have len_targets: "length ?targets = nat n_samples" by simp
  have lags_nth: "?lags ! i = map ((!) series) [i..<i + nat n_lags]" if "i < nat n_samples" for i
  proof -
    have "int i + n_lags \<le> int (length series)" using that ns nf ly by linarith
    from py_slice_window[OF _ _ this] nl that show ?thesis by simp
  qed
  have time_nth: "?time ! i = map ((!) tt) [nat n_lags + i..<nat n_lags + i + nat n_forecasts]"
    if "i < nat n_samples" for i
    using stride_nth[of n_lags n_forecasts n_samples tt i] that nl nf ns lt by simp
  have targets_nth: "?targets ! i = map (\<lambda>k. Filled (series ! k))
                          [i + nat n_lags..<i + nat n_lags + nat n_forecasts]"
    if "i < nat n_samples" "\<not> predict_mode" for i
  proof -
    have "int i + n_lags + n_forecasts \<le> int (length series)" using that ns ly by linarith
    from py_slice_window[of "int i + n_lags" n_forecasts series] this nl nf
    have "py_slice series (Some (int i + n_lags)) (Some (int i + n_lags + n_forecasts))
        = map ((!) series) [nat (int i + n_lags)..<nat (int i + n_lags) + nat n_forecasts]" by simp
    moreover have "nat (int i + n_lags) = i + nat n_lags" using nl by linarith
    ultimately show ?thesis using that by (simp add: comp_def)
  qed
  have seas_ok: "case cfg of None \<Rightarrow> seasonalities ?inp = None
        | Some c \<Rightarrow> \<exists>dates feats seas. ds df = Some dates
            \<and> seasonal_features_from_dates dates c = Inr feats
            \<and> seasonalities ?inp = Some seas \<and> map fst seas = map fst feats
            \<and> (\<forall>j<length feats. length (snd (seas ! j)) = nat n_samples
                \<and> (\<forall>i<nat n_samples. snd (seas ! j) ! i
                     = map ((!) (snd (feats ! j)))
                         [nat n_lags + i..<nat n_lags + i + nat n_forecasts]))"
  proof (cases cfg)
    case None
    then show ?thesis using seas_shape by simp
  next
    case (Some c)
    with seas_shape obtain dates feats where d: "ds df = Some dates"
      and f: "seasonal_features_from_dates dates c = Inr feats"
      and fl: "\<forall>e\<in>set feats. length (snd e) = length dates"
      and s: "seas = Some (map (\<lambda>(name, features).
                (name, stride_time_features_for_forecasts n_lags n_forecasts n_samples features)) feats)"
      using nl by auto
    have ld: "length dates = len df" using wf d by (simp add: wf_df_def col_ok_def)
    let ?S = "map (\<lambda>(name, features).
                (name, stride_time_features_for_forecasts n_lags n_forecasts n_samples features)) feats"
    have "map fst ?S = map fst feats" by (simp add: case_prod_unfold comp_def)
    moreover have "length (snd (?S ! j)) = nat n_samples
                \<and> (\<forall>i<nat n_samples. snd (?S ! j) ! i
                     = map ((!) (snd (feats ! j)))
                         [nat n_lags + i..<nat n_lags + i + nat n_forecasts])" if "j < length feats" for j
    proof -
      have sj: "snd (?S ! j) = stride_time_features_for_forecasts n_lags n_forecasts n_samples (snd (feats ! j))"
        using that by (simp add: case_prod_unfold)
      have "length (snd (feats ! j)) = len df" using fl that ld by simp
      then show ?thesis unfolding sj
        using stride_nth[of n_lags n_forecasts n_samples "snd (feats ! j)"] nl nf ns by simp
    qed
    ultimately show ?thesis using Some d f s by simp
  qed
  show ?thesis
    apply (rule exI[of _ ?inp], rule exI[of _ ?targets])
    apply (intro conjI)
    subgoal by (rule res)
    subgoal by simp
    subgoal by (rule len_targets)
    subgoal using lags_nth by simp
    subgoal using time_nth by simp
    subgoal using targets_nth by simp
    subgoal by (rule seas_ok)
    done
qed

text \<open>
  The ten-row example of the specification: \<open>n_lags = 3\<close>, \<open>n_forecasts = 1\<close> give seven
  samples, the first with lags from rows 0 to 2 and its target from row 3.
\<close>

theorem tabularize_windows_witness:
  "wf_df table10 \<and> (0::int) < 3 \<and> (1::int) \<le> 1 \<and> (7::int) = int (len table10) - 3 + 1 - 1
   \<and> (\<exists>inp targets. tabularize_univariate_datetime table10 (Some weekly_cfg) 3 1 False = Inr (inp, targets)
        \<and> length (time inp) = 7 \<and> length targets = 7
        \<and> (\<exists>lg. lags inp = Some lg \<and> length lg = 7 \<and> lg ! 0 = [Fin 0, Fin 1, Fin 2])
        \<and> time inp ! 0 = [Fin (3 / 9)]
        \<and> targets ! 0 = [Filled (Fin 3)])"
proof -
  have wf: "wf_df table10" by (simp add: wf_df_def col_ok_def table10_def len_def)
  have tcol: "t table10 = Some (map (\<lambda>k. Fin (k / 9)) [0, 1, 2, 3, 4, 5, 6, 7, 8, 9])"
    and ycol: "y_scaled table10 = Some (map Fin [0, 1, 2, 3, 4, 5, 6, 7, 8, 9])"
    by (simp_all add: table10_def)
  have cfg: "case Some weekly_cfg of None \<Rightarrow> True
             | Some c \<Rightarrow> type c = ''fourier'' \<and> ds table10 \<noteq> None"
    by (simp add: weekly_cfg_def table10_def)
  have ns: "(7::int) = int (len table10) - 3 + 1 - 1" by (simp add: len_def table10_def)
  from tabularize_windows[OF wf tcol ycol cfg _ _ ns, of False]
  obtain inp targets lg where
    r: "tabularize_univariate_datetime table10 (Some weekly_cfg) 3 1 False = Inr (inp, targets)"
    and l: "length (time inp) = 7" "length targets = 7" "lags inp = Some lg" "length lg = 7"
    and lg: "\<forall>i<nat 7. lg ! i = map ((!) (map Fin [0, 1, 2, 3, 4, 5, 6, 7, 8, 9])) [i..<i + nat 3]"
    and tm: "\<forall>i<nat 7. time inp ! i
        = map ((!) (map (\<lambda>k. Fin (k / 9)) [0, 1, 2, 3, 4, 5, 6, 7, 8, 9])) [nat 3 + i..<nat 3 + i + nat 1]"
    and tg: "\<forall>i<nat 7. targets ! i
        = map (\<lambda>k. Filled (map Fin [0, 1, 2, 3, 4, 5, 6, 7, 8, 9] ! k)) [i + nat 3..<i + nat 3 + nat 1]"
    by auto
  have "lg ! 0 = [Fin 0, Fin 1, Fin 2]" using lg by (simp add: upt_conv_Cons)
  moreover have "time inp ! 0 = [Fin (3 / 9)]" using tm by (simp add: upt_conv_Cons)
  moreover have "targets ! 0 = [Filled (Fin 3)]" using tg by (simp add: upt_conv_Cons)
  ultimately show ?thesis using wf ns r l by simp
qed

text \<open>
  C2 as stated fails: the function has no check on \<open>n_samples\<close>. On a six-row table with
  \<open>n_lags = 5\<close> and \<open>n_forecasts = 5\<close>, \<open>n_samples\<close> is \<open>-3\<close>, \<open>range(n_samples)\<close> is
  empty and the call returns empty arrays.
\<close>

theorem tabularize_short_table_counterexample:
  "int (len table6) - 5 + 1 - 5 < 1
   \<and> tabularize_univariate_datetime table6 None 5 5 False
       = Inr (\<lparr>time = [], lags = Some [], seasonalities = None\<rparr>, [])"
  by (simp add: table6_def tabularize_univariate_datetime_def len_def get_column_def
      tabularize_seasonalities_def stride_time_features_for_forecasts_def)

lemma seasonal_arrays_empty:
  assumes "\<forall>e\<in>set feats. length (snd e) = n" and "n_lags = 0 \<longrightarrow> n = 0" and "n_samples \<le> 0"
  shows "\<forall>e\<in>set (map (\<lambda>(name, features).
                      (name,
                       if n_lags = 0 then map (\<lambda>row. [row]) features
                       else stride_time_features_for_forecasts n_lags n_forecasts n_samples features))
                      feats). snd e = []"
  using assms by (auto simp: stride_time_features_for_forecasts_def)

text \<open>
  C2, amended. When \<open>n_samples < 1\<close> (and \<open>n_lags \<ge> 0\<close>) the only failure is the assertion
  \<open>n_forecasts == 1\<close> of the branch \<open>n_lags == 0\<close>; in every other case the call returns
  a result with zero samples: empty time, lag, seasonality and target arrays.
\<close>

theorem tabularize_short_table:
  fixes df :: "(int list, 'v list) dataframe"
  assumes wf: "wf_df df" and tcol: "t df = Some tt" and ycol: "y_scaled df = Some series"
    and cfg: "case cfg of None \<Rightarrow> True | Some c \<Rightarrow> type c = ''fourier'' \<and> ds df \<noteq> None"
    and nl: "0 \<le> n_lags"
    and ns: "int (len df) - n_lags + 1 - n_forecasts < 1"
  shows "(n_lags = 0 \<and> n_forecasts \<noteq> 1 \<longrightarrow>
            tabularize_univariate_datetime df cfg n_lags n_forecasts predict_mode = Inl AssertionError)
       \<and> (\<not> (n_lags = 0 \<and> n_forecasts \<noteq> 1) \<longrightarrow>
            (\<exists>inp. tabularize_univariate_datetime df cfg n_lags n_forecasts predict_mode = Inr (inp, [])
               \<and> time inp = []
               \<and> (0 < n_lags \<longrightarrow> lags inp = Some [])
               \<and> (case seasonalities inp of None \<Rightarrow> True | Some seas \<Rightarrow> \<forall>e\<in>set seas. snd e = [])))"
proof (intro conjI impI)
  assume "n_lags = 0 \<and> n_forecasts \<noteq> 1"
  then show "tabularize_univariate_datetime df cfg n_lags n_forecasts predict_mode = Inl AssertionError"
    using tcol ycol by (simp add: tabularize_univariate_datetime_def get_column_def)
next
  assume a: "\<not> (n_lags = 0 \<and> n_forecasts \<noteq> 1)"
  let ?n = "int (len df) - n_lags + 1 - n_forecasts"
  have lt: "length tt = len df" using wf tcol by (simp add: wf_df_def col_ok_def)
  have empty: "n_lags = 0 \<longrightarrow> len df = 0" using a ns by auto
  obtain seas where seas: "tabularize_seasonalities df cfg n_lags n_forecasts ?n = Inr seas"
    and seas_shape: "case cfg of None \<Rightarrow> seas = None
        | Some c \<Rightarrow> \<exists>dates feats. ds df = Some dates
             \<and> seasonal_features_from_dates dates c = Inr feats
             \<and> (\<forall>e\<in>set feats. length (snd e) = length dates)
             \<and> seas = Some (map (\<lambda>(name, features).
                      (name,
                       if n_lags = 0 then map (\<lambda>row. [row]) features
                       else stride_time_features_for_forecasts n_lags n_forecasts ?n features))
                      feats)"
    using tabularize_seasonalities_fourier[OF cfg] by blast
  have nat0: "nat ?n = 0" using ns by simp
  have tt0: "n_lags = 0 \<longrightarrow> tt = []" using empty lt by auto
  have res: "tabularize_univariate_datetime df cfg n_lags n_forecasts predict_mode
      = Inr (\<lparr>time = [], lags = (if 0 < n_lags then Some [] else None), seasonalities = seas\<rparr>, [])"
    using tabularize_result[OF tcol ycol _ seas, of predict_mode] a nat0 tt0
    by (auto simp: stride_time_features_for_forecasts_def)
  have "case seas of None \<Rightarrow> True | Some s \<Rightarrow> \<forall>e\<in>set s. snd e = []"
  proof (cases cfg)
    case None
    then show ?thesis using seas_shape by simp
  next
    case (Some c)
    with seas_shape obtain dates feats where d: "ds df = Some dates"
      and fl: "\<forall>e\<in>set feats. length (snd e) = length dates"
      and s: "seas = Some (map (\<lambda>(name, features).
                      (name,
                       if n_lags = 0 then map (\<lambda>row. [row]) features
                       else stride_time_features_for_forecasts n_lags n_forecasts ?n features))
                      feats)"
      by auto
    have "length dates = len df" using wf d by (simp add: wf_df_def col_ok_def)
    with empty have "n_lags = 0 \<longrightarrow> length dates = 0" by simp
    from seasonal_arrays_empty[OF fl this, of ?n n_forecasts] ns s show ?thesis by simp
  qed
  then show "\<exists>inp. tabularize_univariate_datetime df cfg n_lags n_forecasts predict_mode = Inr (inp, [])
               \<and> time inp = []
               \<and> (0 < n_lags \<longrightarrow> lags inp = Some [])
               \<and> (case seasonalities inp of None \<Rightarrow> True | Some seas \<Rightarrow> \<forall>e\<in>set seas. snd e = [])"
    using res by simp
qed

text \<open>The six-row table, once with \<open>n_lags = 5\<close>, once with \<open>n_lags = 0\<close>.\<close>

theorem tabularize_short_table_witness:
  "wf_df table6 \<and> int (len table6) - 5 + 1 - 5 < 1
   \<and> (\<exists>inp. tabularize_univariate_datetime table6 (Some weekly_cfg) 5 5 False = Inr (inp, [])
         \<and> time inp = [] \<and> lags inp = Some [])
   \<and> int (len table6) - 0 + 1 - 8 < 1
   \<and> tabularize_univariate_datetime table6 (Some weekly_cfg) 0 8 False = Inl AssertionError"
proof -
  have wf: "wf_df table6" by (simp add: wf_df_def col_ok_def table6_def len_def)
  have tcol: "t table6 = Some (map (\<lambda>k. Fin (k / 5)) [0, 1, 2, 3, 4, 5])"
    and ycol: "y_scaled table6 = Some (map Fin [0, 1, 2, 3, 4, 5])"
    by (simp_all add: table6_def)
  have cfg: "case Some weekly_cfg of None \<Rightarrow> True
             | Some c \<Rightarrow> type c = ''fourier'' \<and> ds table6 \<noteq> None"
    by (simp add: weekly_cfg_def table6_def)
  have n1: "int (len table6) - 5 + 1 - 5 < 1" and n2: "int (len table6) - 0 + 1 - 8 < 1"
    by (simp_all add: len_def table6_def)
  from tabularize_short_table[OF wf tcol ycol cfg _ n1, of False]
    tabularize_short_table[OF wf tcol ycol cfg _ n2, of False]
  show ?thesis using wf n1 n2 by auto
qed



text \<open>
  C10 as stated fails: \<open>series = df.loc[:, 'y_scaled'].values\<close> is the second statement of
  the function and runs in \<open>predict_mode\<close> too, so a table without \<open>y_scaled\<close> raises
  \<open>KeyError\<close>.
\<close>

theorem tabularize_predict_needs_y_scaled_counterexample:
  "t table3_no_y \<noteq> None \<and> y_scaled table3_no_y = None
   \<and> tabularize_univariate_datetime table3_no_y None 0 1 True = Inl KeyError"
  by (simp add: table3_no_y_def tabularize_univariate_datetime_def get_column_def)

text \<open>
  C10, amended. In \<open>predict_mode\<close> with \<open>n_lags = 0\<close> and \<open>n_forecasts = 1\<close>, a table
  without \<open>y_scaled\<close> raises \<open>KeyError\<close>; a table with \<open>t\<close> and \<open>y_scaled\<close> gives
  targets of the shape of the time array, every cell left uninitialised.
\<close>

theorem tabularize_predict_mode:
  fixes df :: "(int list, 'v list) dataframe"
  assumes tcol: "t df = Some tt"
    and cfg: "case cfg of None \<Rightarrow> True | Some c \<Rightarrow> type c = ''fourier'' \<and> ds df \<noteq> None"
  shows "(y_scaled df = None \<longrightarrow>
            tabularize_univariate_datetime df cfg 0 1 True = Inl KeyError)
       \<and> (y_scaled df \<noteq> None \<longrightarrow>
            (\<exists>inp targets. tabularize_univariate_datetime df cfg 0 1 True = Inr (inp, targets)
               \<and> time inp = map (\<lambda>x. [x]) tt
               \<and> targets = map (map (\<lambda>_. Uninitialized)) (time inp)
               \<and> length targets = length (time inp)
               \<and> (\<forall>i<length targets. length (targets ! i) = length (time inp ! i))))"
proof (intro conjI impI)
  assume "y_scaled df = None"
  then show "tabularize_univariate_datetime df cfg 0 1 True = Inl KeyError"
    by (simp add: tabularize_univariate_datetime_def get_column_def)
next
  assume "y_scaled df \<noteq> None"
  then obtain series where ycol: "y_scaled df = Some series" by auto
  obtain seas where seas: "tabularize_seasonalities df cfg 0 1 (int (len df) - 0 + 1 - 1) = Inr seas"
    using tabularize_seasonalities_fourier[OF cfg] by blast
  show "\<exists>inp targets. tabularize_univariate_datetime df cfg 0 1 True = Inr (inp, targets)
               \<and> time inp = map (\<lambda>x. [x]) tt
               \<and> targets = map (map (\<lambda>_. Uninitialized)) (time inp)
               \<and> length targets = length (time inp)
               \<and> (\<forall>i<length targets. length (targets ! i) = length (time inp ! i))"
    using tabularize_result[OF tcol ycol _ seas, of True] by simp
qed

text \<open>
  The six-row table in \<open>predict_mode\<close>, and the three-row table without \<open>y_scaled\<close>.
\<close>

theorem tabularize_predict_mode_witness:
  "t table6 \<noteq> None \<and> y_scaled table6 \<noteq> None
   \<and> (\<exists>inp. tabularize_univariate_datetime table6 None 0 1 True
          = Inr (inp, [[Uninitialized], [Uninitialized], [Uninitialized],
                       [Uninitialized], [Uninitialized], [Uninitialized]])
         \<and> time inp = [[Fin 0], [Fin (1 / 5)], [Fin (2 / 5)], [Fin (3 / 5)], [Fin (4 / 5)], [Fin 1]])
   \<and> t table3_no_y \<noteq> None \<and> y_scaled table3_no_y = None
   \<and> tabularize_univariate_datetime table3_no_y None 0 1 True = Inl KeyError"
proof -
  have tcol: "t table6 = Some (map (\<lambda>k. Fin (k / 5)) [0, 1, 2, 3, 4, 5])"
    and ycol: "y_scaled table6 \<noteq> None"
    by (simp_all add: table6_def)
  have tcol3: "t table3_no_y = Some (map (\<lambda>k. Fin (k / 2)) [0, 1, 2])"
    and ycol3: "y_scaled table3_no_y = None"
    by (simp_all add: table3_no_y_def)
  from tabularize_predict_mode[OF tcol, of None] ycol
  have a: "\<exists>inp. tabularize_univariate_datetime table6 None 0 1 True
          = Inr (inp, [[Uninitialized], [Uninitialized], [Uninitialized],
                       [Uninitialized], [Uninitialized], [Uninitialized]])
         \<and> time inp = [[Fin 0], [Fin (1 / 5)], [Fin (2 / 5)], [Fin (3 / 5)], [Fin (4 / 5)], [Fin 1]]"
    by auto
  from tabularize_predict_mode[OF tcol3, of None] ycol3
  have b: "tabularize_univariate_datetime table3_no_y None 0 1 True = Inl KeyError" by simp
  show ?thesis using tcol ycol a tcol3 ycol3 b by simp
qed

section \<open>The Splitter\<close>








section \<open>ScaleEstimator and Normalizer\<close>

lemma ts_min_Min: "dates \<noteq> [] \<Longrightarrow> ts_min dates = At (Min (set dates))"
  by (cases dates) (simp_all add: ts_min_def Min.set_eq_fold[symmetric])

lemma ts_max_Max: "dates \<noteq> [] \<Longrightarrow> ts_max dates = At (Max (set dates))"
  by (cases dates) (simp_all add: ts_max_def Max.set_eq_fold[symmetric])



lemma data_params_from_finite:
  assumes "dates \<noteq> []" "ys \<noteq> []"
  shows "\<exists>origin span shift scale. data_params_from dates (Some ys) normalize_y
     = \<lparr>t_start = At origin, t_scale = At span, y_shift = Some (Fin shift), y_scale = Some (Fin scale)\<rparr>"
  using assms
  by (simp add: data_params_from_def Let_def ts_min_Min ts_max_Max np_mean_def np_std_def)

text \<open>
  C4. With the parameters that \<open>init_data_params\<close> computes from the table, whenever
  \<open>t_scale\<close> and \<open>y_scale\<close> are not zero, \<open>normalize\<close> succeeds and every row is recovered:
  \<open>t * t_scale + t_start\<close> is the row's timestamp and \<open>y_scaled * y_scale + y_shift\<close> its
  value (in exact arithmetic).
\<close>

theorem normalize_round_trip:
  fixes df :: "(int list, real list) dataframe"
  assumes wf: "wf_df df" and dcol: "ds df = Some dates" and ne: "dates \<noteq> []"
    and ycol: "y df = Some ys"
    and par: "init_data_params df normalize_y None = Inr p"
    and span0: "t_scale p \<noteq> At 0" and scale0: "y_scale p \<noteq> Some (Fin 0)"
  shows "\<exists>df' tt ysc origin span shift scale.
      normalize df p = Inr df' \<and> ds df' = Some dates \<and> y df' = Some ys
    \<and> t df' = Some tt \<and> y_scaled df' = Some ysc
    \<and> t_start p = At origin \<and> t_scale p = At span
    \<and> y_shift p = Some (Fin shift) \<and> y_scale p = Some (Fin scale)
    \<and> length tt = length dates \<and> length ysc = length ys
    \<and> (\<forall>i<length dates. \<exists>r. tt ! i = Fin r
           \<and> r * real_of_int span + real_of_int origin = real_of_int (dates ! i))
    \<and> (\<forall>i<length ys. \<exists>s. ysc ! i = Fin s \<and> s * scale + shift = ys ! i)"
proof -
  have "length ys = length dates" using wf dcol ycol by (simp add: wf_df_def col_ok_def)
  then have yne: "ys \<noteq> []" using ne by auto
  have p: "p = data_params_from dates (Some ys) normalize_y"
    using par dcol ycol by (simp add: init_data_params_def get_column_def)
  from data_params_from_finite[OF ne yne, of normalize_y] p
  obtain origin span shift scale where
    pv: "p = \<lparr>t_start = At origin, t_scale = At span,
              y_shift = Some (Fin shift), y_scale = Some (Fin scale)\<rparr>" by auto
  have sp: "span \<noteq> 0" and sc: "scale \<noteq> 0" using span0 scale0 pv by auto
  let ?tt = "map (\<lambda>d. Fin (real_of_int (d - origin) / real_of_int span)) dates"
  let ?ysc = "map (\<lambda>v. Fin ((v - shift) / scale)) ys"
  let ?df' = "df\<lparr>t := Some ?tt, y_scaled := Some ?ysc\<rparr>"
  have res: "normalize df p = Inr ?df'"
    using dcol ycol sp sc by (simp add: normalize_def get_column_def pv)
  have tt: "\<exists>r. ?tt ! i = Fin r
           \<and> r * real_of_int span + real_of_int origin = real_of_int (dates ! i)"
    if "i < length dates" for i
    using that sp by simp
  have ysc: "\<exists>s. ?ysc ! i = Fin s \<and> s * scale + shift = ys ! i" if "i < length ys" for i
    using that sc by simp
  show ?thesis
    apply (rule exI[of _ ?df'], rule exI[of _ ?tt], rule exI[of _ ?ysc])
    apply (rule exI[of _ origin], rule exI[of _ span], rule exI[of _ shift], rule exI[of _ scale])
    apply (intro conjI)
    subgoal by (rule res)
    subgoal using dcol by simp
    subgoal using ycol by simp
    subgoal by simp
    subgoal by simp
    subgoal by (simp add: pv)
    subgoal by (simp add: pv)
    subgoal by (simp add: pv)
    subgoal by (simp add: pv)
    subgoal by simp
    subgoal by simp
    subgoal using tt by blast
    subgoal using ysc by blast
    done
qed

text \<open>
  The two-row table: \<open>t = [0, 1]\<close> and \<open>y_scaled = [-1, 1]\<close>.
\<close>

theorem normalize_round_trip_witness:
  "wf_df table2 \<and> init_data_params table2 True None = Inr table2_params
   \<and> t_scale table2_params \<noteq> At 0 \<and> y_scale table2_params \<noteq> Some (Fin 0)
   \<and> normalize table2 table2_params
        = Inr (table2\<lparr>t := Some [Fin 0, Fin 1], y_scaled := Some [Fin (- 1), Fin 1]\<rparr>)
   \<and> (\<exists>df' tt ysc. normalize table2 table2_params = Inr df'
         \<and> t df' = Some tt \<and> y_scaled df' = Some ysc
         \<and> (\<forall>i<2. \<exists>r. tt ! i = Fin r \<and> r * real_of_int day_ns + 0 = real_of_int ([0, day_ns] ! i))
         \<and> (\<forall>i<2. \<exists>s. ysc ! i = Fin s \<and> s * 1 + 2 = [1, 3] ! i))"
proof -
  have wf: "wf_df table2" by (simp add: wf_df_def col_ok_def table2_def len_def)
  have dcol: "ds table2 = Some [0, day_ns]" and ycol: "y table2 = Some [1, 3]"
    by (simp_all add: table2_def)
  have par: "init_data_params table2 True None = Inr table2_params"
    by (simp add: init_data_params_def get_column_def table2_def data_params_from_def
        ts_min_def ts_max_def np_mean_def np_std_def table2_params_def day_ns_def power2_eq_square)
  have sp: "t_scale table2_params \<noteq> At 0" and sc: "y_scale table2_params \<noteq> Some (Fin 0)"
    by (simp_all add: table2_params_def day_ns_def)
  have n: "normalize table2 table2_params
        = Inr (table2\<lparr>t := Some [Fin 0, Fin 1], y_scaled := Some [Fin (- 1), Fin 1]\<rparr>)"
    by (simp add: normalize_def get_column_def table2_def table2_params_def day_ns_def)
  from normalize_round_trip[OF wf dcol _ ycol par sp sc]
  have "\<exists>df' tt ysc. normalize table2 table2_params = Inr df'
         \<and> t df' = Some tt \<and> y_scaled df' = Some ysc
         \<and> (\<forall>i<2. \<exists>r. tt ! i = Fin r \<and> r * real_of_int day_ns + 0 = real_of_int ([0, day_ns] ! i))
         \<and> (\<forall>i<2. \<exists>s. ysc ! i = Fin s \<and> s * 1 + 2 = [1, 3] ! i)"
    by (auto simp: table2_params_def)
  then show ?thesis using wf par sp sc n by simp
qed

section \<open>The Validator\<close>

lemma those_map_length: "those (map f xs) = Some ys \<Longrightarrow> length ys = length xs"
  by (induction xs arbitrary: ys) (auto split: option.splits)

lemma those_map_Some: "those (map (\<lambda>x. Some (g x)) xs) = Some (map g xs)"
  by (induction xs) simp_all

lemma to_numeric_length: "to_numeric pd cells = Some nums \<Longrightarrow> length nums = length cells"
  unfolding to_numeric_def by (rule those_map_length)

lemma to_numeric_YNum: "to_numeric pd (map YNum nums) = Some nums"
  using those_map_Some[of "\<lambda>v. v" nums] by (simp add: to_numeric_def comp_def)

lemma stamps_At: "stamps (map At keys) = Some keys"
  using those_map_Some[of "\<lambda>v. v" keys] by (simp add: stamps_def comp_def)

lemma stamps_Some: "stamps vs = Some keys \<Longrightarrow> vs = map At keys"
  unfolding stamps_def
proof (induction vs arbitrary: keys)
  case Nil
  then show ?case by simp
next
  case (Cons a vs)
  then show ?case by (cases a) (auto split: option.splits)
qed

lemma take_rows_upt: "length col = n \<Longrightarrow> take_rows [0..<n] col = col"
  by (auto simp: take_rows_def intro: nth_equalityI)

lemma length_take_rows [simp]: "length (take_rows perm col) = length perm"
  by (simp add: take_rows_def)

lemma take_rows_map:
  "\<forall>i\<in>set perm. i < length col \<Longrightarrow> take_rows perm (map f col) = map f (take_rows perm col)"
  by (simp add: take_rows_def)

lemma set_take_rows: "\<forall>i\<in>set perm. i < length col \<Longrightarrow> set (take_rows perm col) \<subseteq> set col"
  by (auto simp: take_rows_def)

text \<open>A permutation of the positions that sorts strictly increasing keys is the identity.\<close>

lemma argsort_strict_id:
  assumes perm: "mset perm = mset [0..<length keys]"
    and srt: "sorted (map ((!) keys) perm)"
    and strict: "sorted_wrt (<) keys"
  shows "perm = [0..<length keys]"
proof -
  have set_perm: "set perm = {0..<length keys}" using perm by (metis mset_eq_setD set_upt)
  have dist: "distinct perm" using perm by (metis distinct_upt mset_eq_imp_distinct_iff)
  have "sorted_wrt (\<lambda>a b. keys ! a \<le> keys ! b) perm"
    using srt by (simp add: sorted_wrt_map)
  then have "sorted_wrt (\<le>) perm"
  proof (rule sorted_wrt_mono_rel[rotated])
    fix a b assume "a \<in> set perm" "b \<in> set perm" "keys ! a \<le> keys ! b"
    then have a: "a < length keys" and b: "b < length keys" using set_perm by auto
    show "a \<le> b"
    proof (rule ccontr)
      assume "\<not> a \<le> b"
      then have "b < a" by simp
      then have "keys ! b < keys ! a" using strict a by (simp add: sorted_wrt_nth_less)
      with \<open>keys ! a \<le> keys ! b\<close> show False by simp
    qed
  qed
  then have "sorted perm" by simp
  moreover have "sorted [0..<length keys]" "distinct [0..<length keys]" by simp_all
  moreover have "set perm = set [0..<length keys]" using set_perm by simp
  ultimately show ?thesis using dist by (intro sorted_distinct_set_unique)
qed

lemma pandas_ok_argsort:
  assumes "pandas_ok pd"
  shows "mset (argsort pd keys) = mset [0..<length keys]"
    and "sorted (map ((!) keys) (argsort pd keys))"
    and "length (argsort pd keys) = length keys"
    and "\<forall>i\<in>set (argsort pd keys). i < length keys"
proof -
  show m: "mset (argsort pd keys) = mset [0..<length keys]"
    and "sorted (map ((!) keys) (argsort pd keys))"
    using assms by (simp_all add: pandas_ok_def)
  from m have "size (mset (argsort pd keys)) = size (mset [0..<length keys])" by simp
  then show "length (argsort pd keys) = length keys" by simp
  from m have "set (argsort pd keys) = set [0..<length keys]" by (rule mset_eq_setD)
  then show "\<forall>i\<in>set (argsort pd keys). i < length keys" by simp
qed

lemma reset_index_id:
  "index df = map int [0..<len df] \<Longrightarrow> index_name df = None \<Longrightarrow> reset_index df = df"
  by (simp add: reset_index_def)

lemma sort_values_sorted_id:
  assumes ok: "pandas_ok pd" and strict: "sorted_wrt (<) keys"
    and wf: "wf_raw df" and n: "length keys = len df"
    and dcol: "ds df = Some (DatetimeCol None (map At keys))"
  shows "sort_values pd keys df = df"
proof -
  have perm: "argsort pd keys = [0..<len df]"
    using argsort_strict_id[OF pandas_ok_argsort(1,2)[OF ok] strict] n by simp
  have cols: "map_option (take_rows [0..<len df]) (y df) = y df"
    "map_option (take_rows [0..<len df]) (t df) = t df"
    "map_option (take_rows [0..<len df]) (y_scaled df) = y_scaled df"
    using wf by (auto simp: wf_raw_def col_ok_def take_rows_upt split: option.splits)
  have idx: "take_rows [0..<len df] (index df) = index df"
    by (simp add: take_rows_upt len_def)
  have k: "take_rows [0..<len df] keys = keys" using n by (simp add: take_rows_upt)
  show ?thesis
    unfolding sort_values_def Let_def perm cols idx k using dcol by simp
qed

text \<open>What a call that returns a table has gone through.\<close>

lemma check_dataframe_Inr:
  assumes "check_dataframe pd df = (df', Inr out)"
  shows "\<exists>dcol ycol nums keys.
      len df \<noteq> 0 \<and> ds df = Some dcol \<and> y df = Some ycol
    \<and> 2 \<le> length (filter (\<lambda>c. \<not> isnull c) ycol) \<and> \<not> list_ex isnull ycol
    \<and> to_numeric pd ycol = Some nums \<and> \<not> list_ex isinf nums
    \<and> to_datetime pd (case dcol of Int64Col xs \<Rightarrow> ObjectCol (map (\<lambda>i. DStr (str i)) xs)
                         | _ \<Rightarrow> dcol) = Some (None, map At keys)
    \<and> df' = df\<lparr>y := Some (map YNum nums), ds := Some (DatetimeCol None (map At keys)),
              index_name := (if index_name df = Some ''ds'' then None else index_name df)\<rparr>
    \<and> out = reset_index (sort_values pd keys df')"
proof -
  from assms have n0: "len df \<noteq> 0"
    by (auto simp: check_dataframe_def split: if_splits)
  from assms n0 obtain dcol ycol where d: "ds df = Some dcol" and yc: "y df = Some ycol"
    by (auto simp: check_dataframe_def split: option.splits)
  from assms n0 d yc have c1: "2 \<le> length (filter (\<lambda>c. \<not> isnull c) ycol)"
    and c2: "\<not> list_ex isnull ycol"
    by (auto simp: check_dataframe_def split: if_splits)
  from assms n0 d yc c1 c2 obtain nums where nm: "to_numeric pd ycol = Some nums"
    by (auto simp: check_dataframe_def split: option.splits)
  let ?dcol2 = "case dcol of Int64Col xs \<Rightarrow> ObjectCol (map (\<lambda>i. DStr (str i)) xs) | _ \<Rightarrow> dcol"
  from assms n0 d yc c1 c2 nm have c3: "\<not> list_ex isinf nums" and c4: "\<not> ds_isnull_any dcol"
    by (auto simp: check_dataframe_def Let_def split: if_splits)
  from assms n0 d yc c1 c2 nm c3 c4 obtain tz vs where td: "to_datetime pd ?dcol2 = Some (tz, vs)"
    by (auto simp: check_dataframe_def Let_def split: option.splits)
  from assms n0 d yc c1 c2 nm c3 c4 td have tz: "tz = None"
    by (auto simp: check_dataframe_def Let_def split: if_splits)
  from assms n0 d yc c1 c2 nm c3 c4 td tz obtain keys where st: "stamps vs = Some keys"
    by (auto simp: check_dataframe_def Let_def split: option.splits)
  have vs: "vs = map At keys" using st by (rule stamps_Some)
  from assms n0 d yc c1 c2 nm c3 c4 td tz st vs
  have "df' = df\<lparr>y := Some (map YNum nums), ds := Some (DatetimeCol None (map At keys)),
              index_name := (if index_name df = Some ''ds'' then None else index_name df)\<rparr>
    \<and> out = reset_index (sort_values pd keys df')"
    by (auto simp: check_dataframe_def Let_def)
  then show ?thesis using n0 d yc c1 c2 nm c3 td tz vs by auto
qed

lemma isnull_YNum: "isnull (YNum v) \<longleftrightarrow> v = NaN"
  by (cases v) simp_all

text \<open>A table whose columns are coerced already, and whose values are in order.\<close>

lemma check_dataframe_typed:
  assumes n0: "len df \<noteq> 0"
    and yc: "y df = Some (map YNum nums)" and n2: "2 \<le> length nums"
    and nonan: "NaN \<notin> set nums" and noinf: "\<not> list_ex isinf nums"
    and dc: "ds df = Some (DatetimeCol None (map At keys))"
    and nm: "index_name df \<noteq> Some ''ds''"
  shows "check_dataframe pd df = (df, Inr (reset_index (sort_values pd keys df)))"
proof -
  have nn: "\<not> list_ex isnull (map YNum nums)"
  proof
    assume "list_ex isnull (map YNum nums)"
    then obtain v where "v \<in> set nums" "isnull (YNum v)" by (auto simp: list_ex_iff)
    then show False using nonan by (simp add: isnull_YNum)
  qed
  then have "filter (\<lambda>c. \<not> isnull c) (map YNum nums) = map YNum nums"
    by (auto simp: list_ex_iff)
  then have cnt: "\<not> length (filter (\<lambda>c. \<not> isnull c) (map YNum nums)) < 2" using n2 by simp
  have nonat: "NaT \<notin> set (map At keys)" by auto
  have d1: "df\<lparr>y := Some (map YNum nums)\<rparr> = df" using yc by simp
  have d2: "df\<lparr>ds := Some (DatetimeCol None (map At keys))\<rparr> = df" using dc by simp
  show ?thesis
    unfolding check_dataframe_def using n0 yc dc cnt nn noinf nonat nm
    by (simp add: to_numeric_YNum stamps_At d1 d2 Let_def)
qed

text \<open>
  C7, amended. The table a successful call returns has its timestamps in non-decreasing
  order, the row labels \<open>0, 1, ..., len(df) - 1\<close> and no index name. When its timestamps
  are pairwise distinct they are strictly increasing; when, besides, none of its values is
  \<open>nan\<close> (a string such as \<open>'nan'\<close> passes the null check and is coerced afterwards),
  checking the returned table again returns it unchanged and leaves it unchanged.
\<close>

theorem check_dataframe_sorted:
  assumes ok: "pandas_ok pd" and wf: "wf_raw df"
    and res: "check_dataframe pd df = (df', Inr out)"
  shows "\<exists>keys nums.
      ds out = Some (DatetimeCol None (map At keys)) \<and> y out = Some (map YNum nums)
    \<and> sorted keys
    \<and> index out = map int [0..<len df] \<and> index_name out = None
    \<and> (distinct keys \<longrightarrow> sorted_wrt (<) keys)
    \<and> (distinct keys \<and> NaN \<notin> set nums \<longrightarrow> check_dataframe pd out = (out, Inr out))"
proof -
  from check_dataframe_Inr[OF res] obtain dcol ycol nums keys where
    n0: "len df \<noteq> 0" and d: "ds df = Some dcol" and yc: "y df = Some ycol"
    and c1: "2 \<le> length (filter (\<lambda>c. \<not> isnull c) ycol)"
    and nm: "to_numeric pd ycol = Some nums" and c3: "\<not> list_ex isinf nums"
    and td: "to_datetime pd (case dcol of Int64Col xs \<Rightarrow> ObjectCol (map (\<lambda>i. DStr (str i)) xs)
                         | _ \<Rightarrow> dcol) = Some (None, map At keys)"
    and df': "df' = df\<lparr>y := Some (map YNum nums), ds := Some (DatetimeCol None (map At keys)),
              index_name := (if index_name df = Some ''ds'' then None else index_name df)\<rparr>"
    and out: "out = reset_index (sort_values pd keys df')"
    by blast
  have ly: "length ycol = len df" using wf yc by (simp add: wf_raw_def col_ok_def)
  have ln: "length nums = len df" using to_numeric_length[OF nm] ly by simp
  have "length (filter (\<lambda>c. \<not> isnull c) ycol) \<le> length ycol" by simp
  then have n2: "2 \<le> len df" using c1 ly by simp
  have dl: "ds_len dcol = len df" using wf d by (simp add: wf_raw_def)
  have lk: "length keys = len df"
  proof (cases dcol)
    case (Int64Col xs)
    then have "to_datetime_obj pd (map (\<lambda>i. DStr (str i)) xs) = Some (None, map At keys)"
      using td by simp
    then have "length (map At keys) = length (map (\<lambda>i. DStr (str i)) xs)"
      using ok unfolding pandas_ok_def by blast
    then show ?thesis using dl Int64Col by simp
  next
    case (ObjectCol cs)
    then have "to_datetime_obj pd cs = Some (None, map At keys)" using td by simp
    then have "length (map At keys) = length cs" using ok unfolding pandas_ok_def by blast
    then show ?thesis using dl ObjectCol by simp
  next
    case (DatetimeCol tz vs)
    then show ?thesis using td dl by auto
  qed
  let ?perm = "argsort pd keys"
  let ?keys = "take_rows ?perm keys"
  let ?nums = "take_rows ?perm nums"
  note pa = pandas_ok_argsort[OF ok, of keys]
  have lp: "length ?perm = len df" using pa(3) lk by simp
  have in_nums: "\<forall>i\<in>set ?perm. i < length nums" using pa(4) lk ln by simp
  have len_out: "len out = len df"
    unfolding out by (simp add: reset_index_def sort_values_def len_def Let_def lp)
  have ds_out: "ds out = Some (DatetimeCol None (map At ?keys))"
    unfolding out by (simp add: reset_index_def sort_values_def Let_def)
  have y_out: "y out = Some (map YNum ?nums)"
    unfolding out df' using take_rows_map[OF in_nums, of YNum]
    by (simp add: reset_index_def sort_values_def Let_def)
  have idx_out: "index out = map int [0..<len df]"
    unfolding out by (simp add: reset_index_def sort_values_def len_def Let_def lp)
  have nm_out: "index_name out = None" unfolding out by (simp add: reset_index_def)
  have srt: "sorted ?keys" using pa(2) by (simp add: take_rows_def)
  have strict: "sorted_wrt (<) ?keys" if "distinct ?keys"
    using srt that by (simp add: strict_sorted_iff)
  have wf_out: "wf_raw out"
    unfolding out df' using wf
    by (auto simp: wf_raw_def col_ok_def reset_index_def sort_values_def len_def Let_def lp
        split: option.splits)
  have idem: "check_dataframe pd out = (out, Inr out)" if dist: "distinct ?keys" and nonan: "NaN \<notin> set ?nums"
  proof -
    have noinf: "\<not> list_ex isinf ?nums"
      using c3 set_take_rows[OF in_nums] by (auto simp: list_ex_iff)
    have "check_dataframe pd out = (out, Inr (reset_index (sort_values pd ?keys out)))"
      using n0 len_out y_out n2 lp nonan noinf ds_out nm_out
      by (intro check_dataframe_typed) simp_all
    moreover have "sort_values pd ?keys out = out"
      using ok strict[OF dist] wf_out ds_out len_out lp
      by (intro sort_values_sorted_id) simp_all
    moreover have "reset_index out = out"
      using idx_out nm_out len_out by (intro reset_index_id) simp_all
    ultimately show ?thesis by simp
  qed
  show ?thesis
    apply (rule exI[of _ ?keys], rule exI[of _ ?nums])
    using ds_out y_out srt idx_out nm_out strict idem by blast
qed

lemma pandas_ok_plain: "pandas_ok pandas_plain"
  by (simp add: pandas_ok_def pandas_plain_def sorted_sort_key)

text \<open>
  C7 as stated fails: the function sorts by \<open>'ds'\<close> and never looks for equal
  timestamps. Two rows with the same timestamp are accepted and returned, and their
  timestamps are not strictly increasing.
\<close>

theorem check_dataframe_strict_counterexample:
  "check_dataframe pandas_plain raw_same_time = (raw_same_time, Inr raw_same_time)
   \<and> ds raw_same_time = Some (DatetimeCol None [At 0, At 0])
   \<and> \<not> sorted_wrt (<) [0::int, 0]"
  by (simp add: check_dataframe_def pandas_plain_def raw_same_time_def len_def to_numeric_def
      stamps_def sort_values_def reset_index_def take_rows_def Let_def)

text \<open>
  Three rows out of order, with the index named \<open>'ds'\<close>: sorted, relabelled, and a fixed point of the check.
\<close>

theorem check_dataframe_sorted_witness:
  "pandas_ok pandas_plain \<and> wf_raw raw_unsorted
   \<and> check_dataframe pandas_plain raw_unsorted = (raw_unsorted\<lparr>index_name := None\<rparr>, Inr raw_sorted)
   \<and> sorted_wrt (<) [0, day_ns, 2 * day_ns]
   \<and> check_dataframe pandas_plain raw_sorted = (raw_sorted, Inr raw_sorted)"
proof -
  have wf: "wf_raw raw_unsorted"
    by (simp add: wf_raw_def col_ok_def raw_unsorted_def len_def)
  have res: "check_dataframe pandas_plain raw_unsorted
      = (raw_unsorted\<lparr>index_name := None\<rparr>, Inr raw_sorted)"
    by (simp add: check_dataframe_def pandas_plain_def raw_unsorted_def raw_sorted_def len_def
        to_numeric_def stamps_def sort_values_def reset_index_def take_rows_def Let_def day_ns_def
        upt_conv_Cons)
  from check_dataframe_sorted[OF pandas_ok_plain wf res]
  obtain keys nums where k: "ds raw_sorted = Some (DatetimeCol None (map At keys))"
    and n: "y raw_sorted = Some (map YNum nums)"
    and s: "distinct keys \<longrightarrow> sorted_wrt (<) keys"
    and i: "distinct keys \<and> NaN \<notin> set nums
            \<longrightarrow> check_dataframe pandas_plain raw_sorted = (raw_sorted, Inr raw_sorted)"
    by blast
  have keys: "keys = [0, day_ns, 2 * day_ns]" using k by (auto simp: raw_sorted_def)
  have nums: "nums = [Fin 1, Fin 2, Fin 3]" using n by (auto simp: raw_sorted_def)
  have d: "distinct keys" unfolding keys by (simp add: day_ns_def)
  have "sorted_wrt (<) [0, day_ns, 2 * day_ns]" using s d keys by simp
  moreover have "check_dataframe pandas_plain raw_sorted = (raw_sorted, Inr raw_sorted)"
    using i d nums by simp
  ultimately show ?thesis using pandas_ok_plain wf res by simp
qed






end
